theory Spec2Isabelle
  imports
    Complex_Main
    "HOL-Library.Multiset"
    "HOL-Library.Product_Lexorder"
    "HOL-Library.Char_ord"
    "HOL-Library.List_Lexorder"
    "HOL-Library.Log_Nat"
begin

section \<open>The persisted store read by debug-offline-storage.py\<close>

text \<open>
  The script reads three tables of an SQLite catalog. A row of each table is a record
  whose fields are the table's columns, prefixed by the alias the script's own queries
  use (\<open>om\<close>, \<open>oc\<close>, \<open>dq\<close>).

  Modelled from the spec: the \<open>CREATE TABLE\<close> statements are not part of the script, so
  the columns and their types are those of the data model of the specification. A column
  the data model calls nullable or optional, or for which it says what a null means
  (\<open>total_pages\<close>, \<open>total_size_bytes\<close>, the progress counters, the denormalised chapter
  fields of a queue row), is an \<open>option\<close>; Python sees NULL as \<open>None\<close>. An integer column
  holds a signed 64-bit value, a chapter number the exact value of the stored number, a
  text column the bytes of its text.
\<close>

record offline_manga_row =
  om_id :: int
  om_extension_id :: string
  om_manga_id :: string
  om_manga_slug :: string
  om_downloaded_at :: int
  om_last_updated_at :: "int option"
  om_total_size_bytes :: "int option"

record offline_chapter_row =
  oc_id :: int
  oc_offline_manga_id :: int
  oc_chapter_id :: string
  oc_chapter_number :: rat
  oc_chapter_title :: "string option"
  oc_total_pages :: "int option"
  oc_downloaded_at :: int
  oc_size_bytes :: int

record download_queue_row =
  dq_id :: int
  dq_extension_id :: string
  dq_manga_id :: string
  dq_manga_slug :: string
  dq_chapter_id :: "string option"
  dq_chapter_number :: "rat option"
  dq_chapter_title :: "string option"
  dq_status :: string
  dq_priority :: int
  dq_queued_at :: int
  dq_started_at :: "int option"
  dq_completed_at :: "int option"
  dq_error_message :: "string option"
  dq_progress_current :: "int option"
  dq_progress_total :: "int option"

text \<open>
  The catalog file holds the three tables, each of which may be missing from the schema,
  and whatever other schema objects the owning application created (other tables, its
  indexes), given by their \<open>(type, name)\<close> in \<open>sqlite_master\<close>.
\<close>

record store =
  offline_manga :: "offline_manga_row list option"
  offline_chapters :: "offline_chapter_row list option"
  download_queue :: "download_queue_row list option"
  other_objects :: "(string \<times> string) list"

section \<open>Exceptions\<close>

datatype exn =
  SystemExit int
| OperationalError string
| ProgrammingError
| TypeError

section \<open>Numbers\<close>

text \<open>The range of an SQLite integer.\<close>

definition int64 :: "int \<Rightarrow> bool" where
  "int64 n \<longleftrightarrow> - (2 ^ 63) \<le> n \<and> n < 2 ^ 63"

text \<open>
  A floating-point number, in SQLite and in Python, is an IEEE binary64 value; it is given
  here by its exact value, a rational. \<open>to_double\<close> rounds a rational to the nearest
  such value, to the one with the even significand when two are equally near. The
  exponent is not bounded: every number the script computes lies far inside the range of
  the normal binary64 values.
\<close>

definition round_even :: "rat \<Rightarrow> int" where
  "round_even y =
     (let f = \<lfloor>y\<rfloor>; r = y - of_int f in
      if r < 1 / 2 then f else if 1 / 2 < r then f + 1 else if even f then f else f + 1)"

definition to_double :: "rat \<Rightarrow> rat" where
  "to_double x =
     (if x = 0 then 0
      else
        let (p, q) = quotient_of \<bar>x\<bar>;
            e0 = bitlen p - bitlen q - 53;
            e = (if \<bar>x\<bar> / power_int 2 e0 < 2 ^ 53 then e0 else e0 + 1)
        in sgn x * of_int (round_even (\<bar>x\<bar> / power_int 2 e)) * power_int 2 e)"

text \<open>
  A number computed by an SQL expression is an integer or a floating-point number. The
  arithmetic of two integers is integer arithmetic as long as the result fits 64 bits;
  when it does not, both operands are converted to floating point and the operation is
  done there. An operation with a floating-point operand is a floating-point operation.
\<close>

datatype sql_num = SqlInteger int | SqlReal rat

definition as_double :: "sql_num \<Rightarrow> rat" where
  "as_double v = (case v of SqlInteger n \<Rightarrow> to_double (of_int n) | SqlReal r \<Rightarrow> r)"

definition sql_mul :: "sql_num \<Rightarrow> sql_num \<Rightarrow> sql_num" where
  "sql_mul x y =
     (case (x, y) of
        (SqlInteger a, SqlInteger b) \<Rightarrow>
          if int64 (a * b) then SqlInteger (a * b)
          else SqlReal (to_double (as_double x * as_double y))
      | _ \<Rightarrow> SqlReal (to_double (as_double x * as_double y)))"

definition sql_sub :: "sql_num \<Rightarrow> sql_num \<Rightarrow> sql_num" where
  "sql_sub x y =
     (case (x, y) of
        (SqlInteger a, SqlInteger b) \<Rightarrow>
          if int64 (a - b) then SqlInteger (a - b)
          else SqlReal (to_double (as_double x - as_double y))
      | _ \<Rightarrow> SqlReal (to_double (as_double x - as_double y)))"

text \<open>
  \<open>/\<close> by a positive integer literal (the script divides by 1000 and by 60): on an integer
  the quotient truncated toward zero, on a floating-point number the rounded quotient.
\<close>

definition sql_div :: "sql_num \<Rightarrow> int \<Rightarrow> sql_num" where
  "sql_div x d =
     (case x of
        SqlInteger a \<Rightarrow> SqlInteger (sgn a * (\<bar>a\<bar> div d))
      | SqlReal r \<Rightarrow> SqlReal (to_double (r / of_int d)))"

text \<open>\<open>>\<close> against an integer literal: SQLite compares the exact values.\<close>

definition sql_gt :: "sql_num \<Rightarrow> int \<Rightarrow> bool" where
  "sql_gt x n = (case x of SqlInteger a \<Rightarrow> n < a | SqlReal r \<Rightarrow> of_int n < r)"

section \<open>The order of the rows of a result\<close>

text \<open>
  An SQL query determines which rows its result has and, with \<open>ORDER BY\<close>, the order of
  rows that differ on the sort key. The order of the other rows is the engine's: it
  follows from the access path the engine takes (a table scan, an index, the order of
  the loops of a join), which depends on the schema's indexes. That choice is a parameter
  of every query: a function that rearranges the rows the query is about to return. Every
  permutation is a possible choice, and nothing else is.
\<close>

type_synonym 'a plan = "'a list \<Rightarrow> 'a list"

definition arranges :: "'a plan \<Rightarrow> bool" where
  "arranges plan \<longleftrightarrow> (\<forall>rows. mset (plan rows) = mset rows)"

text \<open>
  \<open>ORDER BY\<close>: the engine's sorter run over the rows as the access path delivers them. It
  puts the rows in ascending order of the sort key; rows with equal keys stay in the
  order of delivery. A descending integer column is sorted by its negation.
\<close>

definition order_by :: "('a \<Rightarrow> 'k::linorder) \<Rightarrow> 'a plan \<Rightarrow> 'a list \<Rightarrow> 'a list" where
  "order_by k plan rows = sort_key k (plan rows)"

section \<open>The queries\<close>

subsection \<open>The queue listings\<close>

text \<open>\<open>ORDER BY priority DESC, queued_at ASC\<close> (lines 135 and 342).\<close>

definition queue_order :: "download_queue_row \<Rightarrow> int \<times> int" where
  "queue_order e = (- dq_priority e, dq_queued_at e)"

text \<open>
  The relation the clause describes: \<open>a\<close> may stand before \<open>b\<close> when its priority is
  higher, or the priorities are equal and it was queued no later.
\<close>

definition queue_before :: "download_queue_row \<Rightarrow> download_queue_row \<Rightarrow> bool" where
  "queue_before a b =
     (dq_priority a > dq_priority b \<or>
      (dq_priority a = dq_priority b \<and> dq_queued_at a \<le> dq_queued_at b))"

text \<open>The queue listing of \<open>inspect_database\<close> (lines 129-137).\<close>

definition listQueueEntries ::
  "download_queue_row plan \<Rightarrow> download_queue_row list \<Rightarrow> download_queue_row list" where
  "listQueueEntries plan dqs = order_by queue_order plan dqs"

text \<open>The queue items of one work in \<open>check_specific_manga\<close> (lines 339-345).\<close>

definition queue_items ::
  "download_queue_row plan \<Rightarrow> string \<Rightarrow> string \<Rightarrow> download_queue_row list \<Rightarrow>
   download_queue_row list" where
  "queue_items plan extension_id manga_id dqs =
     order_by queue_order plan
       (filter (\<lambda>e. dq_extension_id e = extension_id \<and> dq_manga_id e = manga_id) dqs)"

subsection \<open>The listings of sections 1 and 2\<close>

text \<open>\<open>FROM offline_manga ORDER BY downloaded_at DESC\<close> (lines 64-70).\<close>

definition manga_list ::
  "offline_manga_row plan \<Rightarrow> offline_manga_row list \<Rightarrow> offline_manga_row list" where
  "manga_list plan oms = order_by (\<lambda>om. - om_downloaded_at om) plan oms"

text \<open>
  \<open>FROM offline_chapters oc JOIN offline_manga om ON oc.offline_manga_id = om.id
  ORDER BY om.manga_slug, oc.chapter_number\<close> (lines 91-105). A result row is kept as the
  pair of the joined rows; the script reads only the selected columns of it.
\<close>

definition chapters_joined ::
  "offline_chapter_row list \<Rightarrow> offline_manga_row list \<Rightarrow>
   (offline_chapter_row \<times> offline_manga_row) list" where
  "chapters_joined ocs oms =
     [(oc, om). oc \<leftarrow> ocs, om \<leftarrow> oms, oc_offline_manga_id oc = om_id om]"

definition chapters_list ::
  "(offline_chapter_row \<times> offline_manga_row) plan \<Rightarrow>
   offline_chapter_row list \<Rightarrow> offline_manga_row list \<Rightarrow>
   (offline_chapter_row \<times> offline_manga_row) list" where
  "chapters_list plan ocs oms =
     order_by (\<lambda>(oc, om). (om_manga_slug om, oc_chapter_number oc)) plan
       (chapters_joined ocs oms)"

subsection \<open>Statistics (lines 181-197)\<close>

text \<open>\<open>SELECT COUNT(*) FROM download_queue WHERE status = ?\<close>.\<close>

definition count_status :: "string \<Rightarrow> download_queue_row list \<Rightarrow> int" where
  "count_status st dqs = int (length (filter (\<lambda>e. dq_status e = st) dqs))"

text \<open>
  \<open>SUM\<close> adds the values in the order the scan delivers them. It skips NULL, is NULL
  when no row has a value (in particular over no rows), and fails with
  \<open>integer overflow\<close> as soon as a partial sum leaves the 64-bit range.
\<close>

fun sum_from :: "int option \<Rightarrow> int option list \<Rightarrow> exn + int option" where
  "sum_from acc [] = Inr acc"
| "sum_from acc (None # vs) = sum_from acc vs"
| "sum_from acc (Some v # vs) =
     (let s = (case acc of None \<Rightarrow> 0 | Some a \<Rightarrow> a) + v in
      if int64 s then sum_from (Some s) vs else Inl (OperationalError ''integer overflow''))"

definition sql_sum :: "int option plan \<Rightarrow> int option list \<Rightarrow> exn + int option" where
  "sql_sum plan vs = sum_from None (plan vs)"

text \<open>Python's \<open>x or 0\<close> on a fetched integer: \<open>None\<close> and \<open>0\<close> are both falsy.\<close>

definition or_0 :: "int option \<Rightarrow> int" where
  "or_0 v = (case v of None \<Rightarrow> 0 | Some n \<Rightarrow> if n = 0 then 0 else n)"

subsection \<open>The three anomaly queries\<close>

record dup_row =
  queue_id :: int
  dup_chapter_id :: "string option"
  dup_chapter_number :: "rat option"
  queue_status :: string
  dup_manga_slug :: string

text \<open>
  Lines 215-229. The first join matches the work on \<open>(extension_id, manga_id)\<close>, the
  second the chapter on the work's row id and \<open>chapter_id\<close>. An SQL equality with NULL
  on one side is not true, so \<open>oc.chapter_id = dq.chapter_id\<close> holds only for a queue
  row whose \<open>chapter_id\<close> is the chapter's. There is no \<open>DISTINCT\<close> and no \<open>GROUP BY\<close>:
  the result has one row for every combination of rows that passes the conditions.
\<close>

definition dup_of :: "download_queue_row \<Rightarrow> offline_manga_row \<Rightarrow> dup_row" where
  "dup_of dq om =
     \<lparr>queue_id = dq_id dq, dup_chapter_id = dq_chapter_id dq,
      dup_chapter_number = dq_chapter_number dq, queue_status = dq_status dq,
      dup_manga_slug = om_manga_slug om\<rparr>"

definition duplicate_rows ::
  "download_queue_row list \<Rightarrow> offline_manga_row list \<Rightarrow> offline_chapter_row list \<Rightarrow>
   dup_row list" where
  "duplicate_rows dqs oms ocs =
     [dup_of dq om.
      dq \<leftarrow> dqs,
      om \<leftarrow> oms,
      dq_extension_id dq = om_extension_id om \<and> dq_manga_id dq = om_manga_id om,
      oc \<leftarrow> ocs,
      oc_offline_manga_id oc = om_id om \<and> Some (oc_chapter_id oc) = dq_chapter_id dq,
      dq_chapter_id dq \<noteq> None]"

text \<open>The query has no \<open>ORDER BY\<close>: the rows come in the order the engine produces them.\<close>

definition duplicate_queue ::
  "dup_row plan \<Rightarrow> download_queue_row list \<Rightarrow> offline_manga_row list \<Rightarrow>
   offline_chapter_row list \<Rightarrow> dup_row list" where
  "duplicate_queue plan dqs oms ocs = plan (duplicate_rows dqs oms ocs)"

text \<open>
  \<open>strftime('%s', 'now')\<close> is the current time in whole seconds since the epoch, as a
  text; the clock itself is read in milliseconds. In arithmetic the text counts as the
  integer it spells.
\<close>

definition strftime_s :: "int \<Rightarrow> int" where
  "strftime_s now_ms = now_ms div 1000"

text \<open>\<open>strftime('%s', 'now') * 1000 - started_at\<close> (lines 246 and 250).\<close>

definition since_started :: "int \<Rightarrow> int \<Rightarrow> sql_num" where
  "since_started now_ms started =
     sql_sub (sql_mul (SqlInteger (strftime_s now_ms)) (SqlInteger 1000)) (SqlInteger started)"

record frozen_row =
  frozen_id :: int
  frozen_manga_slug :: string
  frozen_chapter_number :: "rat option"
  frozen_started_at :: int
  minutes_elapsed :: sql_num

text \<open>The \<open>WHERE\<close> clause of lines 248-250.\<close>

definition is_frozen :: "int \<Rightarrow> download_queue_row \<Rightarrow> bool" where
  "is_frozen now_ms e =
     (dq_status e = ''downloading'' \<and>
      (case dq_started_at e of
         None \<Rightarrow> False
       | Some started \<Rightarrow> sql_gt (since_started now_ms started) 3600000))"

text \<open>The column \<open>minutes_elapsed\<close> of line 246.\<close>

definition elapsed_minutes :: "int \<Rightarrow> int \<Rightarrow> sql_num" where
  "elapsed_minutes now_ms started = sql_div (sql_div (since_started now_ms started) 1000) 60"

definition frozen_of :: "int \<Rightarrow> download_queue_row \<Rightarrow> int \<Rightarrow> frozen_row" where
  "frozen_of now_ms e started =
     \<lparr>frozen_id = dq_id e, frozen_manga_slug = dq_manga_slug e,
      frozen_chapter_number = dq_chapter_number e, frozen_started_at = started,
      minutes_elapsed = elapsed_minutes now_ms started\<rparr>"

definition frozen_rows :: "int \<Rightarrow> download_queue_row list \<Rightarrow> frozen_row list" where
  "frozen_rows now_ms dqs =
     [frozen_of now_ms e started.
      e \<leftarrow> dqs, is_frozen now_ms e, Some started \<leftarrow> [dq_started_at e]]"

definition frozen :: "frozen_row plan \<Rightarrow> int \<Rightarrow> download_queue_row list \<Rightarrow> frozen_row list" where
  "frozen plan now_ms dqs = plan (frozen_rows now_ms dqs)"

record zero_row =
  zero_manga_slug :: string
  zero_chapter_id :: string
  zero_chapter_number :: rat
  zero_total_pages :: "int option"

text \<open>Lines 265-275.\<close>

definition zero_of :: "offline_chapter_row \<Rightarrow> offline_manga_row \<Rightarrow> zero_row" where
  "zero_of oc om =
     \<lparr>zero_manga_slug = om_manga_slug om, zero_chapter_id = oc_chapter_id oc,
      zero_chapter_number = oc_chapter_number oc, zero_total_pages = oc_total_pages oc\<rparr>"

definition zero_rows :: "offline_chapter_row list \<Rightarrow> offline_manga_row list \<Rightarrow> zero_row list" where
  "zero_rows ocs oms =
     [zero_of oc om.
      oc \<leftarrow> ocs,
      om \<leftarrow> oms,
      oc_offline_manga_id oc = om_id om,
      oc_total_pages oc = Some 0 \<or> oc_total_pages oc = None]"

definition zero_pages ::
  "zero_row plan \<Rightarrow> offline_chapter_row list \<Rightarrow> offline_manga_row list \<Rightarrow> zero_row list" where
  "zero_pages plan ocs oms = plan (zero_rows ocs oms)"

section \<open>Printing\<close>

text \<open>
  A printed line is the sequence of the pieces of its f-string: literal text, the glyph
  that stands for an emoji, and the values put into the holes (with the format the hole
  asks for). A \<open>\n\<close> at the head of an f-string is an empty line before the line. How a
  value is laid out in characters is the formatter's concern.
\<close>

datatype glyph =
  Hourglass | DownArrow | CheckMark | CrossMark | QuestionMark | WarningSign | OpenBook
| Clipboard

datatype tok =
  Str string          \<comment> \<open>literal text, or a text column\<close>
| Upper string        \<comment> \<open>\<open>s.upper()\<close>\<close>
| Glyph glyph
| IntPlain int        \<comment> \<open>\<open>{n}\<close>\<close>
| IntComma int        \<comment> \<open>\<open>{n:,}\<close>\<close>
| Num rat             \<comment> \<open>a chapter number\<close>
| Fixed1 rat          \<comment> \<open>\<open>{x:.1f}\<close>, \<open>x\<close> as a floating-point number\<close>
| Fixed2 rat          \<comment> \<open>\<open>{x:.2f}\<close>\<close>
| Stamp int           \<comment> \<open>a timestamp that went through \<open>format_timestamp\<close>\<close>
| DbPath              \<comment> \<open>\<open>DB_PATH\<close>\<close>
| PyNone              \<comment> \<open>\<open>None\<close> put into a plain hole\<close>

type_synonym line = "tok list"

text \<open>
  What a block of prints leaves behind: the lines it printed, and the exception that
  stopped it, if one did.
\<close>

type_synonym printed = "line list \<times> exn option"

definition pr :: "line list \<Rightarrow> printed" where
  "pr ls = (ls, None)"

definition raise :: "exn \<Rightarrow> printed" where
  "raise e = ([], Some e)"

fun pseq :: "printed \<Rightarrow> printed \<Rightarrow> printed" where
  "pseq (ls, Some e) p = (ls, Some e)"
| "pseq (ls, None) (ls', r) = (ls @ ls', r)"

fun pfor :: "('a \<Rightarrow> printed) \<Rightarrow> 'a list \<Rightarrow> printed" where
  "pfor f [] = ([], None)"
| "pfor f (x # xs) = pseq (f x) (pfor f xs)"

definition hole :: "('a \<Rightarrow> tok) \<Rightarrow> 'a option \<Rightarrow> tok" where
  "hole f v = (case v of None \<Rightarrow> PyNone | Some x \<Rightarrow> f x)"

text \<open>Python truth of a fetched text or integer column.\<close>

definition truthy_str :: "string option \<Rightarrow> bool" where
  "truthy_str v = (case v of None \<Rightarrow> False | Some s \<Rightarrow> s \<noteq> [])"

definition truthy_int :: "int option \<Rightarrow> bool" where
  "truthy_int v = (case v of None \<Rightarrow> False | Some n \<Rightarrow> n \<noteq> 0)"

text \<open>\<open>title or 'Untitled'\<close>.\<close>

definition or_untitled :: "string option \<Rightarrow> string" where
  "or_untitled v = (if truthy_str v then the v else ''Untitled'')"

text \<open>
  \<open>format_timestamp\<close> (lines 22-29): \<open>None\<close> is shown as N/A; any other value is shown
  as a date, or as the raw number when the conversion fails. No exception leaves it.
\<close>

definition format_timestamp :: "int option \<Rightarrow> tok" where
  "format_timestamp ts = (case ts of None \<Rightarrow> Str ''N/A'' | Some t \<Rightarrow> Stamp t)"

definition rule80 :: line where
  "rule80 = [Str (replicate 80 CHR ''='')]"

subsection \<open>Section 1 (lines 72-84)\<close>

definition print_manga :: "offline_manga_row \<Rightarrow> printed" where
  "print_manga m =
     pseq (pr [[],
               [Str ''   Manga ID: '', IntPlain (om_id m)],
               [Str ''   Extension: '', Str (om_extension_id m)],
               [Str ''   Manga ID: '', Str (om_manga_id m)],
               [Str ''   Slug: '', Str (om_manga_slug m)],
               [Str ''   Downloaded: '', format_timestamp (Some (om_downloaded_at m))],
               [Str ''   Last Updated: '', format_timestamp (om_last_updated_at m)]])
          (case om_total_size_bytes m of
             None \<Rightarrow> raise TypeError
           | Some n \<Rightarrow> pr [[Str ''   Size: '', IntComma n, Str '' bytes'']])"

definition print_manga_list :: "offline_manga_row list \<Rightarrow> printed" where
  "print_manga_list ms =
     pseq (if ms = [] then pr [[Str ''   No manga downloaded'']] else pfor print_manga ms)
          (pr [[]])"

subsection \<open>Section 2 (lines 107-122)\<close>

fun print_chapters ::
  "string option \<Rightarrow> (offline_chapter_row \<times> offline_manga_row) list \<Rightarrow> printed" where
  "print_chapters current_manga [] = pr []"
| "print_chapters current_manga ((oc, om) # rest) =
     pseq (if current_manga \<noteq> Some (om_manga_slug om)
           then pr [[], [Str ''   '', Glyph OpenBook, Str '' '', Str (om_manga_slug om)]]
           else pr [])
    (pseq (pr [[Str ''      Ch '', Num (oc_chapter_number oc), Str '': '',
                Str (or_untitled (oc_chapter_title oc))],
               [Str ''         ID: '', Str (oc_chapter_id oc)],
               [Str ''         Pages: '', hole IntPlain (oc_total_pages oc)],
               [Str ''         Size: '', IntComma (oc_size_bytes oc), Str '' bytes''],
               [Str ''         Downloaded: '', format_timestamp (Some (oc_downloaded_at oc))]])
          (print_chapters (Some (om_manga_slug om)) rest))"

definition print_chapters_list ::
  "(offline_chapter_row \<times> offline_manga_row) list \<Rightarrow> printed" where
  "print_chapters_list chapters =
     pseq (if chapters = [] then pr [[Str ''   No chapters downloaded'']]
           else print_chapters None chapters)
          (pr [[]])"

subsection \<open>Section 3 (lines 139-174)\<close>

text \<open>The dictionary lookup with its default (lines 143-148 and 350-355).\<close>

definition status_emoji :: "string \<Rightarrow> glyph" where
  "status_emoji status =
     (if status = ''queued'' then Hourglass
      else if status = ''downloading'' then DownArrow
      else if status = ''completed'' then CheckMark
      else if status = ''failed'' then CrossMark
      else QuestionMark)"

text \<open>
  Lines 166-168. \<open>progress_pct\<close> starts as 0 and is computed only when \<open>progress_total\<close>
  is truthy and positive. Python's \<open>/\<close> on two integers is the quotient rounded to a
  floating-point number, \<open>* 100\<close> the rounded product; dividing \<open>None\<close> raises
  \<open>TypeError\<close>.
\<close>

definition progress_pct :: "download_queue_row \<Rightarrow> exn + rat" where
  "progress_pct item =
     (case dq_progress_total item of
        None \<Rightarrow> Inr 0
      | Some tot \<Rightarrow>
          if tot \<noteq> 0 \<and> 0 < tot
          then (case dq_progress_current item of
                  None \<Rightarrow> Inl TypeError
                | Some cur \<Rightarrow> Inr (to_double (to_double (of_int cur / of_int tot) * 100)))
          else Inr 0)"

definition print_queue_item :: "download_queue_row \<Rightarrow> printed" where
  "print_queue_item item =
     pseq (pr ([[],
                [Str ''   '', Glyph (status_emoji (dq_status item)), Str '' Queue ID: '',
                 IntPlain (dq_id item), Str '' | Status: '', Upper (dq_status item)],
                [Str ''      Manga: '', Str (dq_manga_slug item)]]
             @ (if truthy_str (dq_chapter_id item)
                then [[Str ''      Chapter: Ch '', hole Num (dq_chapter_number item),
                       Str '' - '', Str (or_untitled (dq_chapter_title item))],
                      [Str ''      Chapter ID: '', hole Str (dq_chapter_id item)]]
                else [[Str ''      Type: FULL MANGA DOWNLOAD'']])
             @ [[Str ''      Priority: '', IntPlain (dq_priority item)],
                [Str ''      Queued: '', format_timestamp (Some (dq_queued_at item))]]
             @ (if truthy_int (dq_started_at item)
                then [[Str ''      Started: '', format_timestamp (dq_started_at item)]]
                else [])))
    (pseq (if dq_status item = ''downloading''
           then (case progress_pct item of
                   Inl e \<Rightarrow> raise e
                 | Inr pct \<Rightarrow>
                     pr [[Str ''      Progress: '', hole IntPlain (dq_progress_current item),
                          Str ''/'', hole IntPlain (dq_progress_total item), Str '' ('',
                          Fixed1 pct, Str ''%)'']])
           else pr [])
          (if truthy_str (dq_error_message item)
           then pr [[Str ''      '', Glyph CrossMark, Str '' Error: '',
                     hole Str (dq_error_message item)]]
           else pr []))"

definition print_queue :: "download_queue_row list \<Rightarrow> printed" where
  "print_queue queue =
     pseq (if queue = [] then pr [[Str ''   Queue is empty'']]
           else pfor print_queue_item queue)
          (pr [[]])"

subsection \<open>Section 4 (lines 199-206)\<close>

record statistics =
  manga_count :: int
  chapter_count :: int
  queued_count :: int
  downloading_count :: int
  failed_count :: int
  total_size :: int

definition print_statistics :: "statistics \<Rightarrow> printed" where
  "print_statistics st =
     pr [[],
         [Str ''   Downloaded Manga: '', IntPlain (manga_count st)],
         [Str ''   Downloaded Chapters: '', IntPlain (chapter_count st)],
         [Str ''   Total Size: '', IntComma (total_size st), Str '' bytes ('',
          Fixed2 (to_double (of_int (total_size st) / (1024 * 1024))), Str '' MB)''],
         [Str ''   Queue - Queued: '', IntPlain (queued_count st)],
         [Str ''   Queue - Downloading: '', IntPlain (downloading_count st)],
         [Str ''   Queue - Failed: '', IntPlain (failed_count st)],
         []]"

subsection \<open>Section 5 (lines 231-285)\<close>

definition no_duplicates_line :: line where
  "no_duplicates_line =
     [Str ''   '', Glyph CheckMark, Str '' No chapters in queue that are already downloaded'']"

definition no_frozen_line :: line where
  "no_frozen_line = [Str ''   '', Glyph CheckMark, Str '' No frozen downloads detected'']"

definition all_have_pages_line :: line where
  "all_have_pages_line =
     [Str ''   '', Glyph CheckMark, Str '' All downloaded chapters have pages'']"

definition print_dup :: "dup_row \<Rightarrow> printed" where
  "print_dup dup =
     pr [[Str ''      - Queue ID '', IntPlain (queue_id dup), Str '': '',
          Str (dup_manga_slug dup), Str '' Ch '', hole Num (dup_chapter_number dup)],
         [Str ''        Chapter ID: '', hole Str (dup_chapter_id dup)],
         [Str ''        Queue Status: '', Str (queue_status dup)]]"

definition print_duplicate_queue :: "dup_row list \<Rightarrow> printed" where
  "print_duplicate_queue dups =
     pseq (if dups \<noteq> []
           then pseq (pr [[Str ''   '', Glyph WarningSign,
                           Str ''  CHAPTERS IN QUEUE THAT ARE ALREADY DOWNLOADED:'']])
                     (pfor print_dup dups)
           else pr [no_duplicates_line])
          (pr [[]])"

definition print_frozen_item :: "frozen_row \<Rightarrow> printed" where
  "print_frozen_item item =
     pr [[Str ''      - Queue ID '', IntPlain (frozen_id item), Str '': '',
          Str (frozen_manga_slug item), Str '' Ch '', hole Num (frozen_chapter_number item)],
         [Str ''        Stuck for: '', Fixed1 (as_double (minutes_elapsed item)),
          Str '' minutes'']]"

definition print_frozen :: "frozen_row list \<Rightarrow> printed" where
  "print_frozen rows =
     pseq (if rows \<noteq> []
           then pseq (pr [[Str ''   '', Glyph WarningSign,
                           Str (''  FROZEN DOWNLOADS (stuck in '' @ [CHR 0x27] @ ''downloading''
                                @ [CHR 0x27] @ '' for > 1 hour):'')]])
                     (pfor print_frozen_item rows)
           else pr [no_frozen_line])
          (pr [[]])"

definition print_zero_item :: "zero_row \<Rightarrow> printed" where
  "print_zero_item item =
     pr [[Str ''      - '', Str (zero_manga_slug item), Str '' Ch '',
          Num (zero_chapter_number item)],
         [Str ''        Chapter ID: '', Str (zero_chapter_id item)]]"

definition print_zero_pages :: "zero_row list \<Rightarrow> printed" where
  "print_zero_pages rows =
     pseq (if rows \<noteq> []
           then pseq (pr [[Str ''   '', Glyph WarningSign,
                           Str ''  CHAPTERS WITH ZERO PAGES (possibly corrupted):'']])
                     (pfor print_zero_item rows)
           else pr [all_have_pages_line])
          (pr [[], rule80])"

section \<open>The engine, the connection and a run\<close>

text \<open>The engine's choice of row order, one for each statement the script executes.\<close>

record engine =
  plan_manga_list :: "offline_manga_row plan"
  plan_chapters_list :: "(offline_chapter_row \<times> offline_manga_row) plan"
  plan_queue :: "download_queue_row plan"
  plan_total_size :: "int option plan"
  plan_duplicate_queue :: "dup_row plan"
  plan_frozen :: "frozen_row plan"
  plan_zero_pages :: "zero_row plan"
  plan_find_manga :: "offline_manga_row plan"
  plan_chapters_of :: "offline_chapter_row plan"
  plan_queue_items :: "download_queue_row plan"

definition engine_ok :: "engine \<Rightarrow> bool" where
  "engine_ok e \<longleftrightarrow>
     arranges (plan_manga_list e) \<and> arranges (plan_chapters_list e) \<and>
     arranges (plan_queue e) \<and> arranges (plan_total_size e) \<and>
     arranges (plan_duplicate_queue e) \<and> arranges (plan_frozen e) \<and>
     arranges (plan_zero_pages e) \<and> arranges (plan_find_manga e) \<and>
     arranges (plan_chapters_of e) \<and> arranges (plan_queue_items e)"

datatype conn_state = NotOpened | Opened | Closed

record world =
  db_exists :: bool
  db :: store
  sqlite :: engine
  conn :: conn_state
  stdout :: "line list"

type_synonym 'a run = "world \<Rightarrow> (exn + 'a) \<times> world"

definition bnd :: "'a run \<Rightarrow> ('a \<Rightarrow> 'b run) \<Rightarrow> 'b run" where
  "bnd m k w = (case m w of (Inl e, w') \<Rightarrow> (Inl e, w') | (Inr x, w') \<Rightarrow> k x w')"

definition print_out :: "printed \<Rightarrow> unit run" where
  "print_out p w =
     ((case snd p of None \<Rightarrow> Inr () | Some e \<Rightarrow> Inl e), w\<lparr>stdout := stdout w @ fst p\<rparr>)"

text \<open>
  \<open>connect_db\<close> (lines 15-20): without the file the script prints and exits with
  status 1 before a connection exists.
\<close>

definition connect_db :: "unit run" where
  "connect_db w =
     (if \<not> db_exists w
      then (Inl (SystemExit 1),
            w\<lparr>stdout := stdout w @ [[Glyph CrossMark, Str '' Database not found at: '', DbPath]]\<rparr>)
      else (Inr (), w\<lparr>conn := Opened\<rparr>))"

definition conn_close :: "unit run" where
  "conn_close w = (Inr (), w\<lparr>conn := Closed\<rparr>)"

text \<open>
  \<open>cursor.execute\<close> followed by the fetch: the query is evaluated by the engine on the
  store as it stands and may fail; a connection that is not open refuses it.
\<close>

definition cursor_execute :: "(engine \<Rightarrow> store \<Rightarrow> exn + 'a) \<Rightarrow> 'a run" where
  "cursor_execute q w =
     (if conn w = Opened then (q (sqlite w) (db w), w) else (Inl ProgrammingError, w))"

definition table :: "string \<Rightarrow> 'a list option \<Rightarrow> exn + 'a list" where
  "table name t =
     (case t of
        None \<Rightarrow> Inl (OperationalError (''no such table: '' @ name))
      | Some rows \<Rightarrow> Inr rows)"

definition sbind :: "exn + 'a \<Rightarrow> ('a \<Rightarrow> exn + 'b) \<Rightarrow> exn + 'b" where
  "sbind r f = (case r of Inl e \<Rightarrow> Inl e | Inr x \<Rightarrow> f x)"

subsection \<open>The schema check (lines 43-58)\<close>

definition ascii_lower :: "char \<Rightarrow> char" where
  "ascii_lower c =
     (let n = (of_char c :: nat) in if 65 \<le> n \<and> n \<le> 90 then char_of (n + 32) else c)"

text \<open>\<open>name LIKE 'p%'\<close>: \<open>LIKE\<close> ignores the case of ASCII letters.\<close>

definition like_prefix :: "string \<Rightarrow> string \<Rightarrow> bool" where
  "like_prefix p name = (map ascii_lower (take (length p) name) = map ascii_lower p)"

definition sqlite_master :: "store \<Rightarrow> (string \<times> string) list" where
  "sqlite_master s =
     (case offline_manga s of None \<Rightarrow> [] | Some rows \<Rightarrow> [(''table'', ''offline_manga'')])
     @ (case offline_chapters s of None \<Rightarrow> [] | Some rows \<Rightarrow> [(''table'', ''offline_chapters'')])
     @ (case download_queue s of None \<Rightarrow> [] | Some rows \<Rightarrow> [(''table'', ''download_queue'')])
     @ other_objects s"

text \<open>
  \<open>WHERE type='table' AND name LIKE 'offline%' OR name LIKE 'download%' ORDER BY name\<close>:
  \<open>AND\<close> binds tighter than \<open>OR\<close>. A result row is a name, the sort key of the row is the
  row: rows with equal keys are equal, so the order of the result is the same under every
  choice of the engine.
\<close>

definition q_tables :: "engine \<Rightarrow> store \<Rightarrow> exn + string list" where
  "q_tables e s =
     Inr (sort_key (\<lambda>name. name)
            [name. (ty, name) \<leftarrow> sqlite_master s,
                   (ty = ''table'' \<and> like_prefix ''offline'' name)
                   \<or> like_prefix ''download'' name])"

subsection \<open>The queries on the store\<close>

definition q_manga_list :: "engine \<Rightarrow> store \<Rightarrow> exn + offline_manga_row list" where
  "q_manga_list e s =
     sbind (table ''offline_manga'' (offline_manga s))
       (\<lambda>oms. Inr (manga_list (plan_manga_list e) oms))"

definition q_chapters_list ::
  "engine \<Rightarrow> store \<Rightarrow> exn + (offline_chapter_row \<times> offline_manga_row) list" where
  "q_chapters_list e s =
     sbind (table ''offline_chapters'' (offline_chapters s)) (\<lambda>ocs.
     sbind (table ''offline_manga'' (offline_manga s)) (\<lambda>oms.
     Inr (chapters_list (plan_chapters_list e) ocs oms)))"

definition q_queue :: "engine \<Rightarrow> store \<Rightarrow> exn + download_queue_row list" where
  "q_queue e s =
     sbind (table ''download_queue'' (download_queue s))
       (\<lambda>dqs. Inr (listQueueEntries (plan_queue e) dqs))"

definition q_count_manga :: "engine \<Rightarrow> store \<Rightarrow> exn + int" where
  "q_count_manga e s =
     sbind (table ''offline_manga'' (offline_manga s)) (\<lambda>oms. Inr (int (length oms)))"

definition q_count_chapters :: "engine \<Rightarrow> store \<Rightarrow> exn + int" where
  "q_count_chapters e s =
     sbind (table ''offline_chapters'' (offline_chapters s)) (\<lambda>ocs. Inr (int (length ocs)))"

definition q_count_status :: "string \<Rightarrow> engine \<Rightarrow> store \<Rightarrow> exn + int" where
  "q_count_status st e s =
     sbind (table ''download_queue'' (download_queue s)) (\<lambda>dqs. Inr (count_status st dqs))"

definition q_total_size :: "engine \<Rightarrow> store \<Rightarrow> exn + int option" where
  "q_total_size e s =
     sbind (table ''offline_manga'' (offline_manga s))
       (\<lambda>oms. sql_sum (plan_total_size e) (map om_total_size_bytes oms))"

definition q_duplicate_queue :: "engine \<Rightarrow> store \<Rightarrow> exn + dup_row list" where
  "q_duplicate_queue e s =
     sbind (table ''download_queue'' (download_queue s)) (\<lambda>dqs.
     sbind (table ''offline_manga'' (offline_manga s)) (\<lambda>oms.
     sbind (table ''offline_chapters'' (offline_chapters s)) (\<lambda>ocs.
     Inr (duplicate_queue (plan_duplicate_queue e) dqs oms ocs))))"

definition q_frozen :: "int \<Rightarrow> engine \<Rightarrow> store \<Rightarrow> exn + frozen_row list" where
  "q_frozen now_ms e s =
     sbind (table ''download_queue'' (download_queue s))
       (\<lambda>dqs. Inr (frozen (plan_frozen e) now_ms dqs))"

definition q_zero_pages :: "engine \<Rightarrow> store \<Rightarrow> exn + zero_row list" where
  "q_zero_pages e s =
     sbind (table ''offline_chapters'' (offline_chapters s)) (\<lambda>ocs.
     sbind (table ''offline_manga'' (offline_manga s)) (\<lambda>oms.
     Inr (zero_pages (plan_zero_pages e) ocs oms)))"

subsection \<open>\<open>inspect_database\<close> (lines 31-288)\<close>

definition banner :: "line list \<Rightarrow> line list" where
  "banner title = [rule80] @ title @ [rule80]"

definition section_manga :: "unit run" where
  "section_manga =
     bnd (print_out (pr (banner [[Str ''1. OFFLINE MANGA'']]))) (\<lambda>_.
     bnd (cursor_execute q_manga_list) (\<lambda>manga_list.
     print_out (print_manga_list manga_list)))"

definition section_chapters :: "unit run" where
  "section_chapters =
     bnd (print_out (pr (banner [[Str ''2. OFFLINE CHAPTERS'']]))) (\<lambda>_.
     bnd (cursor_execute q_chapters_list) (\<lambda>chapters.
     print_out (print_chapters_list chapters)))"

definition section_queue :: "unit run" where
  "section_queue =
     bnd (print_out (pr (banner [[Str ''3. DOWNLOAD QUEUE (Active/Pending)'']]))) (\<lambda>_.
     bnd (cursor_execute q_queue) (\<lambda>queue.
     print_out (print_queue queue)))"

text \<open>The six statistics queries, in the order the script issues them (lines 181-197).\<close>

definition computeStatistics :: "statistics run" where
  "computeStatistics =
     bnd (cursor_execute q_count_manga) (\<lambda>manga_count.
     bnd (cursor_execute q_count_chapters) (\<lambda>chapter_count.
     bnd (cursor_execute (q_count_status ''queued'')) (\<lambda>queued_count.
     bnd (cursor_execute (q_count_status ''downloading'')) (\<lambda>downloading_count.
     bnd (cursor_execute (q_count_status ''failed'')) (\<lambda>failed_count.
     bnd (cursor_execute q_total_size) (\<lambda>size.
     (\<lambda>w. (Inr \<lparr>manga_count = manga_count, chapter_count = chapter_count,
                 queued_count = queued_count, downloading_count = downloading_count,
                 failed_count = failed_count, total_size = or_0 size\<rparr>, w))))))))"

definition section_statistics :: "unit run" where
  "section_statistics =
     bnd (print_out (pr (banner [[Str ''4. STATISTICS'']]))) (\<lambda>_.
     bnd computeStatistics (\<lambda>st.
     print_out (print_statistics st)))"

definition check_duplicates :: "unit run" where
  "check_duplicates =
     bnd (cursor_execute q_duplicate_queue) (\<lambda>duplicate_queue.
     print_out (print_duplicate_queue duplicate_queue))"

definition check_frozen :: "int \<Rightarrow> unit run" where
  "check_frozen now_ms =
     bnd (cursor_execute (q_frozen now_ms)) (\<lambda>frozen.
     print_out (print_frozen frozen))"

definition check_zero_pages :: "unit run" where
  "check_zero_pages =
     bnd (cursor_execute q_zero_pages) (\<lambda>zero_pages.
     print_out (print_zero_pages zero_pages))"

definition section_issues :: "int \<Rightarrow> unit run" where
  "section_issues now_ms =
     bnd (print_out (pr (banner [[Str ''5. POTENTIAL ISSUES DETECTION'']] @ [[]]))) (\<lambda>_.
     bnd check_duplicates (\<lambda>_.
     bnd (check_frozen now_ms) (\<lambda>_.
     check_zero_pages)))"

text \<open>
  The whole report. \<open>now_ms\<close> is the clock at the time of the run. There is no handler
  around the body: an exception leaves through \<open>bnd\<close> and the steps after it, the final
  \<open>conn.close()\<close> among them, do not run.
\<close>

definition inspect_database :: "int \<Rightarrow> unit run" where
  "inspect_database now_ms =
     bnd connect_db (\<lambda>_.
     bnd (print_out (pr (banner [[Str ''OFFLINE STORAGE DATABASE INSPECTION'']] @ [[]]))) (\<lambda>_.
     bnd (cursor_execute q_tables) (\<lambda>tables.
     if tables = []
     then bnd (print_out (pr [[Glyph CrossMark, Str '' No offline storage tables found!'']]))
            (\<lambda>_. conn_close)
     else
       bnd (print_out (pr ([[Glyph Clipboard, Str '' Available tables:'']]
                           @ map (\<lambda>name. [Str ''   - '', Str name]) tables @ [[]]))) (\<lambda>_.
       bnd section_manga (\<lambda>_.
       bnd section_chapters (\<lambda>_.
       bnd section_queue (\<lambda>_.
       bnd section_statistics (\<lambda>_.
       bnd (section_issues now_ms) (\<lambda>_.
       conn_close))))))))) "

subsection \<open>\<open>check_specific_manga\<close> (lines 290-362)\<close>



definition q_queue_items ::
  "string \<Rightarrow> string \<Rightarrow> engine \<Rightarrow> store \<Rightarrow> exn + download_queue_row list" where
  "q_queue_items extension_id manga_id e s =
     sbind (table ''download_queue'' (download_queue s)) (\<lambda>dqs.
     Inr (queue_items (plan_queue_items e) extension_id manga_id dqs))"



definition print_specific_item :: "download_queue_row \<Rightarrow> printed" where
  "print_specific_item item =
     pr ([[Str ''   '', Glyph (status_emoji (dq_status item)), Str '' '']
          @ (if truthy_str (dq_chapter_id item)
             then [Str ''Ch '', hole Num (dq_chapter_number item)]
             else [Str ''FULL MANGA''])
          @ [Str '': '', Str (dq_status item)]]
         @ (if truthy_str (dq_error_message item)
            then [[Str ''      Error: '', hole Str (dq_error_message item)]]
            else []))"


section \<open>Findings, keys and example stores\<close>





text \<open>Two engines: one delivers the rows as the tables hold them, one in reverse.\<close>

definition table_scan :: engine where
  "table_scan =
     \<lparr>plan_manga_list = (\<lambda>rows. rows), plan_chapters_list = (\<lambda>rows. rows),
      plan_queue = (\<lambda>rows. rows), plan_total_size = (\<lambda>rows. rows),
      plan_duplicate_queue = (\<lambda>rows. rows), plan_frozen = (\<lambda>rows. rows),
      plan_zero_pages = (\<lambda>rows. rows), plan_find_manga = (\<lambda>rows. rows),
      plan_chapters_of = (\<lambda>rows. rows), plan_queue_items = (\<lambda>rows. rows)\<rparr>"

definition index_scan :: engine where
  "index_scan =
     \<lparr>plan_manga_list = rev, plan_chapters_list = rev, plan_queue = rev,
      plan_total_size = rev, plan_duplicate_queue = rev, plan_frozen = rev,
      plan_zero_pages = rev, plan_find_manga = rev, plan_chapters_of = rev,
      plan_queue_items = rev\<rparr>"

text \<open>
  The store of the end-to-end scenario of the specification: one work, one chapter of it
  with no pages, and one failed queue entry for that chapter.
\<close>

definition a_work :: offline_manga_row where
  "a_work =
     \<lparr>om_id = 1, om_extension_id = ''com.weebcentral.manga'', om_manga_id = ''m1'',
      om_manga_slug = ''one'', om_downloaded_at = 1000, om_last_updated_at = None,
      om_total_size_bytes = Some 1048576\<rparr>"

definition a_chapter :: offline_chapter_row where
  "a_chapter =
     \<lparr>oc_id = 1, oc_offline_manga_id = 1, oc_chapter_id = ''c1'', oc_chapter_number = 1,
      oc_chapter_title = None, oc_total_pages = Some 0, oc_downloaded_at = 1000,
      oc_size_bytes = 1048576\<rparr>"

definition an_entry :: download_queue_row where
  "an_entry =
     \<lparr>dq_id = 7, dq_extension_id = ''com.weebcentral.manga'', dq_manga_id = ''m1'',
      dq_manga_slug = ''one'', dq_chapter_id = Some ''c1'', dq_chapter_number = Some 1,
      dq_chapter_title = None, dq_status = ''failed'', dq_priority = 0, dq_queued_at = 500,
      dq_started_at = None, dq_completed_at = None, dq_error_message = None,
      dq_progress_current = None, dq_progress_total = None\<rparr>"

definition a_store :: store where
  "a_store =
     \<lparr>offline_manga = Some [a_work], offline_chapters = Some [a_chapter],
      download_queue = Some [an_entry], other_objects = []\<rparr>"

text \<open>Variations: a second row for the same chapter, and a chapter with a page.\<close>

definition a_chapter_again :: offline_chapter_row where
  "a_chapter_again = a_chapter\<lparr>oc_id := 2, oc_total_pages := Some 1\<rparr>"

text \<open>A second queue entry with the priority and the queueing time of the first.\<close>

definition a_tied_entry :: download_queue_row where
  "a_tied_entry = an_entry\<lparr>dq_id := 8\<rparr>"

text \<open>A download that started at millisecond 1000.\<close>

definition a_download :: download_queue_row where
  "a_download = an_entry\<lparr>dq_status := ''downloading'', dq_started_at := Some 1000\<rparr>"


text \<open>An entry whose status is none of the four the script knows.\<close>

definition a_paused_entry :: download_queue_row where
  "a_paused_entry = an_entry\<lparr>dq_status := ''paused''\<rparr>"

text \<open>The store with the three tables and no row in any of them.\<close>

definition empty_store :: store where
  "empty_store =
     \<lparr>offline_manga = Some [], offline_chapters = Some [], download_queue = Some [],
      other_objects = []\<rparr>"

text \<open>A catalog in which only the queue table has been created.\<close>

definition queue_only_store :: store where
  "queue_only_store =
     \<lparr>offline_manga = None, offline_chapters = None,
      download_queue = Some [], other_objects = []\<rparr>"

definition a_world :: "store \<Rightarrow> engine \<Rightarrow> world" where
  "a_world s e = \<lparr>db_exists = True, db = s, sqlite = e, conn = Opened, stdout = []\<rparr>"

text \<open>The world before the script starts: no connection yet, nothing printed.\<close>

definition at_start :: "store \<Rightarrow> engine \<Rightarrow> world" where
  "at_start s e = \<lparr>db_exists = True, db = s, sqlite = e, conn = NotOpened, stdout = []\<rparr>"

section \<open>Properties of runs\<close>


text \<open>A step that, started on an open connection, leaves it open however it ends.\<close>

definition keeps_open :: "'a run \<Rightarrow> bool" where
  "keeps_open m \<longleftrightarrow> (\<forall>w. conn w = Opened \<longrightarrow> conn (snd (m w)) = Opened)"

text \<open>
  A step that, started on an open connection, has closed it when it returns and has left
  it open when an exception leaves it.
\<close>

definition closes_on_return :: "'a run \<Rightarrow> bool" where
  "closes_on_return m \<longleftrightarrow>
     (\<forall>w. conn w = Opened \<longrightarrow>
          conn (snd (m w)) = (case fst (m w) of Inl e \<Rightarrow> Opened | Inr x \<Rightarrow> Closed))"

section \<open>Properties\<close>

subsection \<open>Rows of a join\<close>

lemma in_concat_map: "x \<in> set (concat (map f xs)) \<longleftrightarrow> (\<exists>y \<in> set xs. x \<in> set (f y))"
  by auto

subsection \<open>Arrangements\<close>

lemma arranges_mset: "arranges plan \<Longrightarrow> mset (plan rows) = mset rows"
  by (simp add: arranges_def)

lemma arranges_set: "arranges plan \<Longrightarrow> set (plan rows) = set rows"
  by (metis arranges_mset set_mset_mset)

lemma arranges_length: "arranges plan \<Longrightarrow> length (plan rows) = length rows"
  by (metis arranges_mset size_mset)

lemma arranges_Nil: "arranges plan \<Longrightarrow> plan [] = []"
  using arranges_mset [of plan "[]"] by simp


lemma arranges_id: "arranges (\<lambda>rows. rows)"
  by (simp add: arranges_def)

lemma arranges_rev: "arranges rev"
  by (simp add: arranges_def)

lemma engine_ok_table_scan: "engine_ok table_scan"
  by (simp add: engine_ok_def table_scan_def arranges_id)

lemma engine_ok_index_scan: "engine_ok index_scan"
  by (simp add: engine_ok_def index_scan_def arranges_rev)

text \<open>
  What \<open>ORDER BY\<close> can return, over all choices of the engine: exactly the lists that hold
  the rows and are sorted on the key.
\<close>

lemma order_by_sorted: "sorted (map k (order_by k plan rows))"
  by (simp add: order_by_def)

lemma order_by_mset: "arranges plan \<Longrightarrow> mset (order_by k plan rows) = mset rows"
  by (simp add: order_by_def arranges_mset)

lemma order_by_results:
  "(\<exists>plan. arranges plan \<and> order_by k plan rows = out)
     \<longleftrightarrow> mset out = mset rows \<and> sorted (map k out)"
proof
  assume "\<exists>plan. arranges plan \<and> order_by k plan rows = out"
  then show "mset out = mset rows \<and> sorted (map k out)"
    using order_by_mset order_by_sorted by blast
next
  assume r: "mset out = mset rows \<and> sorted (map k out)"
  let ?plan = "\<lambda>xs. if xs = rows then out else xs"
  from r have "arranges ?plan" by (simp add: arranges_def)
  moreover from r have "order_by k ?plan rows = out"
    by (simp add: order_by_def sort_key_id_if_sorted)
  ultimately show "\<exists>plan. arranges plan \<and> order_by k plan rows = out" by blast
qed

subsection \<open>Queue entries for chapters that are already downloaded\<close>



















subsection \<open>Chapters without pages\<close>

lemma zero_rows_mem:
  "r \<in> set (zero_rows ocs oms) \<longleftrightarrow>
     (\<exists>oc \<in> set ocs. \<exists>om \<in> set oms.
        oc_offline_manga_id oc = om_id om
        \<and> (oc_total_pages oc = Some 0 \<or> oc_total_pages oc = None)
        \<and> r = zero_of oc om)"
  unfolding zero_rows_def in_concat_map by (auto split: if_splits)

lemma zero_of_total_pages: "zero_total_pages (zero_of oc om) = oc_total_pages oc"
  by (simp add: zero_of_def)

text \<open>
  C3. For a downloaded chapter and the work that owns it, the result of the check has the
  finding of that chapter if and only if the chapter's \<open>total_pages\<close> is 0 or NULL; with
  one page it has none. Every finding of the result is one for 0 or NULL pages, and the
  two are printed alike.
\<close>

theorem empty_chapters_flagged:
  assumes "arranges (plan_zero_pages e)"
    and "offline_chapters s = Some ocs" and "offline_manga s = Some oms"
    and "oc \<in> set ocs" and "om \<in> set oms" and "oc_offline_manga_id oc = om_id om"
  shows "\<exists>rows. q_zero_pages e s = Inr rows
     \<and> (zero_of oc om \<in> set rows
          \<longleftrightarrow> oc_total_pages oc = Some 0 \<or> oc_total_pages oc = None)
     \<and> (oc_total_pages oc = Some 1 \<longrightarrow> zero_of oc om \<notin> set rows)
     \<and> (\<forall>r \<in> set rows. zero_total_pages r = Some 0 \<or> zero_total_pages r = None)
     \<and> print_zero_item (zero_of (oc\<lparr>oc_total_pages := None\<rparr>) om)
         = print_zero_item (zero_of (oc\<lparr>oc_total_pages := Some 0\<rparr>) om)"
proof -
  let ?rows = "zero_pages (plan_zero_pages e) ocs oms"
  have q: "q_zero_pages e s = Inr ?rows"
    using assms(2,3) by (simp add: q_zero_pages_def table_def sbind_def)
  have set_rows: "set ?rows = set (zero_rows ocs oms)"
    using assms(1) by (simp add: zero_pages_def arranges_set)
  have all: "\<forall>r \<in> set ?rows. zero_total_pages r = Some 0 \<or> zero_total_pages r = None"
  proof
    fix r assume "r \<in> set ?rows"
    then have "r \<in> set (zero_rows ocs oms)" by (simp add: set_rows)
    then obtain oc' om' where "oc_total_pages oc' = Some 0 \<or> oc_total_pages oc' = None"
      and "r = zero_of oc' om'"
      unfolding zero_rows_mem by blast
    then show "zero_total_pages r = Some 0 \<or> zero_total_pages r = None"
      by (simp add: zero_of_total_pages)
  qed
  have iff: "zero_of oc om \<in> set ?rows
      \<longleftrightarrow> oc_total_pages oc = Some 0 \<or> oc_total_pages oc = None"
  proof
    assume a: "zero_of oc om \<in> set ?rows"
    from bspec [OF all a] show "oc_total_pages oc = Some 0 \<or> oc_total_pages oc = None"
      by (simp add: zero_of_total_pages)
  next
    assume "oc_total_pages oc = Some 0 \<or> oc_total_pages oc = None"
    with assms(4-6) show "zero_of oc om \<in> set ?rows"
      unfolding set_rows zero_rows_mem by blast
  qed
  have one: "oc_total_pages oc = Some 1 \<longrightarrow> zero_of oc om \<notin> set ?rows"
    using iff by simp
  have same: "print_zero_item (zero_of (oc\<lparr>oc_total_pages := None\<rparr>) om)
         = print_zero_item (zero_of (oc\<lparr>oc_total_pages := Some 0\<rparr>) om)"
    by (simp add: print_zero_item_def zero_of_def)
  show ?thesis
    by (rule exI [of _ ?rows]) (intro conjI q iff one all same)
qed

theorem empty_chapters_flagged_witness:
  "arranges (plan_zero_pages index_scan)
   \<and> offline_chapters (a_store\<lparr>offline_chapters := Some [a_chapter_again, a_chapter]\<rparr>)
       = Some [a_chapter_again, a_chapter]
   \<and> offline_manga (a_store\<lparr>offline_chapters := Some [a_chapter_again, a_chapter]\<rparr>)
       = Some [a_work]
   \<and> a_chapter \<in> set [a_chapter_again, a_chapter] \<and> a_work \<in> set [a_work]
   \<and> oc_offline_manga_id a_chapter = om_id a_work
   \<and> oc_total_pages a_chapter = Some 0
   \<and> (\<exists>rows. q_zero_pages index_scan
                (a_store\<lparr>offline_chapters := Some [a_chapter_again, a_chapter]\<rparr>) = Inr rows
          \<and> zero_of a_chapter a_work \<in> set rows
          \<and> zero_of a_chapter_again a_work \<notin> set rows)"
proof -
  let ?s = "a_store\<lparr>offline_chapters := Some [a_chapter_again, a_chapter]\<rparr>"
  have p: "arranges (plan_zero_pages index_scan)"
    by (simp add: index_scan_def arranges_rev)
  have t: "offline_chapters ?s = Some [a_chapter_again, a_chapter]"
    "offline_manga ?s = Some [a_work]"
    by (simp_all add: a_store_def)
  have m: "a_chapter \<in> set [a_chapter_again, a_chapter]"
    "a_chapter_again \<in> set [a_chapter_again, a_chapter]" "a_work \<in> set [a_work]"
    by simp_all
  have o: "oc_offline_manga_id a_chapter = om_id a_work"
    "oc_offline_manga_id a_chapter_again = om_id a_work"
    by (simp_all add: a_chapter_again_def a_chapter_def a_work_def)
  have v: "oc_total_pages a_chapter = Some 0" "oc_total_pages a_chapter_again = Some 1"
    by (simp_all add: a_chapter_again_def a_chapter_def)
  from empty_chapters_flagged [OF p t m(1) m(3) o(1)] v(1)
  obtain rows where r: "q_zero_pages index_scan ?s = Inr rows"
    and 1: "zero_of a_chapter a_work \<in> set rows"
    by blast
  from empty_chapters_flagged [OF p t m(2) m(3) o(2)] v(2) r
  have 2: "zero_of a_chapter_again a_work \<notin> set rows"
    by auto
  from p t m o v r 1 2 show ?thesis by blast
qed

subsection \<open>The empty store\<close>

lemma sum_from_Nil: "sql_sum plan [] = Inr None" if "arranges plan"
  using that by (simp add: sql_sum_def arranges_Nil)

text \<open>
  C4. On a store whose three tables exist and hold no row, the six statistics are 0, the
  total size among them (the sum over no rows is NULL, which \<open>or 0\<close> turns into 0), and
  each of the three checks prints its line that says nothing was found.
\<close>

theorem empty_store_statistics_and_checks:
  assumes "engine_ok (sqlite w)" and "conn w = Opened"
    and "offline_manga (db w) = Some []" and "offline_chapters (db w) = Some []"
    and "download_queue (db w) = Some []"
  shows "computeStatistics w
       = (Inr \<lparr>manga_count = 0, chapter_count = 0, queued_count = 0, downloading_count = 0,
               failed_count = 0, total_size = 0\<rparr>, w)
     \<and> check_duplicates w = (Inr (), w\<lparr>stdout := stdout w @ [no_duplicates_line, []]\<rparr>)
     \<and> check_frozen now_ms w = (Inr (), w\<lparr>stdout := stdout w @ [no_frozen_line, []]\<rparr>)
     \<and> check_zero_pages w
       = (Inr (), w\<lparr>stdout := stdout w @ [all_have_pages_line, [], rule80]\<rparr>)"
proof (intro conjI)
  from assms(1) have p: "arranges (plan_total_size (sqlite w))"
    "arranges (plan_duplicate_queue (sqlite w))" "arranges (plan_frozen (sqlite w))"
    "arranges (plan_zero_pages (sqlite w))"
    by (simp_all add: engine_ok_def)
  show "computeStatistics w
       = (Inr \<lparr>manga_count = 0, chapter_count = 0, queued_count = 0, downloading_count = 0,
               failed_count = 0, total_size = 0\<rparr>, w)"
    using assms(2-5) p(1)
    by (simp add: computeStatistics_def bnd_def cursor_execute_def q_count_manga_def
        q_count_chapters_def q_count_status_def q_total_size_def table_def sbind_def
        count_status_def sum_from_Nil or_0_def)
  show "check_duplicates w = (Inr (), w\<lparr>stdout := stdout w @ [no_duplicates_line, []]\<rparr>)"
    using assms(2-5) p(2)
    by (simp add: check_duplicates_def bnd_def cursor_execute_def q_duplicate_queue_def
        table_def sbind_def duplicate_queue_def duplicate_rows_def arranges_Nil print_duplicate_queue_def
        print_out_def pr_def)
  show "check_frozen now_ms w = (Inr (), w\<lparr>stdout := stdout w @ [no_frozen_line, []]\<rparr>)"
    using assms(2-5) p(3)
    by (simp add: check_frozen_def bnd_def cursor_execute_def q_frozen_def
        table_def sbind_def frozen_def frozen_rows_def arranges_Nil print_frozen_def print_out_def pr_def)
  show "check_zero_pages w
       = (Inr (), w\<lparr>stdout := stdout w @ [all_have_pages_line, [], rule80]\<rparr>)"
    using assms(2-5) p(4)
    by (simp add: check_zero_pages_def bnd_def cursor_execute_def q_zero_pages_def
        table_def sbind_def zero_pages_def zero_rows_def arranges_Nil print_zero_pages_def print_out_def
        pr_def)
qed

theorem empty_store_statistics_and_checks_witness:
  "engine_ok (sqlite (a_world empty_store index_scan))
   \<and> conn (a_world empty_store index_scan) = Opened
   \<and> offline_manga (db (a_world empty_store index_scan)) = Some []
   \<and> offline_chapters (db (a_world empty_store index_scan)) = Some []
   \<and> download_queue (db (a_world empty_store index_scan)) = Some []
   \<and> fst (computeStatistics (a_world empty_store index_scan))
       = Inr \<lparr>manga_count = 0, chapter_count = 0, queued_count = 0, downloading_count = 0,
              failed_count = 0, total_size = 0\<rparr>
   \<and> stdout (snd (check_duplicates (a_world empty_store index_scan))) = [no_duplicates_line, []]
   \<and> stdout (snd (check_frozen 0 (a_world empty_store index_scan))) = [no_frozen_line, []]
   \<and> stdout (snd (check_zero_pages (a_world empty_store index_scan)))
       = [all_have_pages_line, [], rule80]"
proof -
  have h: "engine_ok (sqlite (a_world empty_store index_scan))"
    "conn (a_world empty_store index_scan) = Opened"
    "offline_manga (db (a_world empty_store index_scan)) = Some []"
    "offline_chapters (db (a_world empty_store index_scan)) = Some []"
    "download_queue (db (a_world empty_store index_scan)) = Some []"
    by (simp_all add: a_world_def empty_store_def engine_ok_index_scan)
  have s: "stdout (a_world empty_store index_scan) = []"
    by (simp add: a_world_def)
  from empty_store_statistics_and_checks [OF h, of 0] h s show ?thesis by simp
qed

subsection \<open>The order of the queue listings\<close>

lemma queue_order_le: "queue_order a \<le> queue_order b \<longleftrightarrow> queue_before a b"
  unfolding queue_order_def queue_before_def less_eq_prod_def by auto

lemma order_by_queue_order_sorted: "sorted_wrt queue_before (order_by queue_order plan rows)"
  using order_by_sorted [of queue_order plan rows] by (simp add: sorted_map queue_order_le)

text \<open>
  C5. Both queue listings hold the rows asked for, each once, in an order in which every
  row stands before every row of lower priority and, among equal priorities, before every
  row queued later. Any two rows are comparable, and two rows are each allowed before
  the other exactly when they agree on both keys. The clause names no third key: how
  rows that agree on both keys follow each other is the engine's choice.
\<close>

theorem queue_listings_sorted:
  assumes "arranges (plan_queue e)" and "arranges (plan_queue_items e)"
    and "download_queue s = Some dqs"
  shows "(\<exists>out. q_queue e s = Inr out \<and> sorted_wrt queue_before out \<and> mset out = mset dqs)
     \<and> (\<exists>out. q_queue_items extension_id manga_id e s = Inr out
            \<and> sorted_wrt queue_before out
            \<and> mset out =
                mset (filter (\<lambda>x. dq_extension_id x = extension_id \<and> dq_manga_id x = manga_id)
                        dqs))
     \<and> (queue_before a b \<or> queue_before b a)
     \<and> (queue_before a b \<and> queue_before b a
          \<longleftrightarrow> dq_priority a = dq_priority b \<and> dq_queued_at a = dq_queued_at b)"
proof (intro conjI)
  show "\<exists>out. q_queue e s = Inr out \<and> sorted_wrt queue_before out \<and> mset out = mset dqs"
    using assms(1,3)
    by (simp add: q_queue_def table_def sbind_def listQueueEntries_def
        order_by_queue_order_sorted order_by_mset)
  show "\<exists>out. q_queue_items extension_id manga_id e s = Inr out
            \<and> sorted_wrt queue_before out
            \<and> mset out =
                mset (filter (\<lambda>x. dq_extension_id x = extension_id \<and> dq_manga_id x = manga_id)
                        dqs)"
    using assms(2,3)
    by (simp add: q_queue_items_def table_def sbind_def queue_items_def
        order_by_queue_order_sorted order_by_mset)
  show "queue_before a b \<or> queue_before b a"
    unfolding queue_before_def by linarith
  show "queue_before a b \<and> queue_before b a
          \<longleftrightarrow> dq_priority a = dq_priority b \<and> dq_queued_at a = dq_queued_at b"
    unfolding queue_before_def by linarith
qed

theorem queue_listings_sorted_witness:
  "arranges (plan_queue index_scan) \<and> arranges (plan_queue_items index_scan)
   \<and> download_queue (a_store\<lparr>download_queue := Some [an_entry, a_tied_entry]\<rparr>)
       = Some [an_entry, a_tied_entry]
   \<and> (\<exists>out. q_queue index_scan (a_store\<lparr>download_queue := Some [an_entry, a_tied_entry]\<rparr>)
              = Inr out
          \<and> sorted_wrt queue_before out \<and> mset out = mset [an_entry, a_tied_entry])"
proof -
  have 1: "arranges (plan_queue index_scan)" and 2: "arranges (plan_queue_items index_scan)"
    by (simp_all add: index_scan_def arranges_rev)
  have 3: "download_queue (a_store\<lparr>download_queue := Some [an_entry, a_tied_entry]\<rparr>)
      = Some [an_entry, a_tied_entry]"
    by simp
  from queue_listings_sorted [OF 1 2 3] 1 2 3 show ?thesis by blast
qed

text \<open>
  Two entries that agree on both keys, listed by an engine that reads the table backwards:
  the entry that stands first in the table stands last in the listing.
\<close>

theorem queue_ties_not_in_input_order:
  "engine_ok index_scan
   \<and> dq_priority an_entry = dq_priority a_tied_entry
   \<and> dq_queued_at an_entry = dq_queued_at a_tied_entry
   \<and> q_queue index_scan (a_store\<lparr>download_queue := Some [an_entry, a_tied_entry]\<rparr>)
       = Inr [a_tied_entry, an_entry]
   \<and> q_queue table_scan (a_store\<lparr>download_queue := Some [an_entry, a_tied_entry]\<rparr>)
       = Inr [an_entry, a_tied_entry]"
proof -
  have "q_queue index_scan (a_store\<lparr>download_queue := Some [an_entry, a_tied_entry]\<rparr>)
       = Inr [a_tied_entry, an_entry]"
    by (simp add: q_queue_def table_def sbind_def listQueueEntries_def order_by_def
        index_scan_def a_tied_entry_def queue_order_def)
  moreover have "q_queue table_scan (a_store\<lparr>download_queue := Some [an_entry, a_tied_entry]\<rparr>)
       = Inr [an_entry, a_tied_entry]"
    by (simp add: q_queue_def table_def sbind_def listQueueEntries_def order_by_def
        table_scan_def a_tied_entry_def queue_order_def)
  ultimately show ?thesis
    by (simp add: engine_ok_index_scan a_tied_entry_def)
qed

subsection \<open>The store is only read\<close>















subsection \<open>The progress percentage\<close>

text \<open>
  What lines 166-168 do on every downloading entry: nothing is divided when the total is
  missing or not positive; otherwise the count is divided by the total, which raises when
  the count is missing.
\<close>

lemma progress_pct_cases:
  "progress_pct item =
     (if dq_progress_total item = None \<or> the (dq_progress_total item) \<le> 0 then Inr 0
      else if dq_progress_current item = None then Inl TypeError
      else Inr (to_double
                  (to_double (of_int (the (dq_progress_current item))
                              / of_int (the (dq_progress_total item))) * 100)))"
  by (auto simp: progress_pct_def split: option.splits)


subsection \<open>A status the script does not know\<close>

lemma pfor_no_exception: "(\<And>x. x \<in> set xs \<Longrightarrow> snd (f x) = None) \<Longrightarrow> snd (pfor f xs) = None"
proof (induction xs)
  case Nil
  show ?case by simp
next
  case (Cons x xs)
  obtain ls where fx: "f x = (ls, None)" using Cons.prems [of x] by (cases "f x") simp
  obtain ls' r where rest: "pfor f xs = (ls', r)" by (cases "pfor f xs")
  from Cons have "snd (pfor f xs) = None" by simp
  with fx rest show ?case by simp
qed

lemma print_queue_item_unknown:
  assumes "dq_status item \<notin> {''queued'', ''downloading'', ''completed'', ''failed''}"
  shows "snd (print_queue_item item) = None"
    and "[Str ''   '', Glyph QuestionMark, Str '' Queue ID: '', IntPlain (dq_id item),
          Str '' | Status: '', Upper (dq_status item)] \<in> set (fst (print_queue_item item))"
  using assms by (simp_all add: print_queue_item_def pr_def status_emoji_def)

text \<open>
  C8. An entry whose status is none of \<open>queued\<close>, \<open>downloading\<close>, \<open>completed\<close>, \<open>failed\<close>
  gets the question mark, which no known status gets, in the listing of the full report
  and in that of the single-work lookup, and printing it raises nothing; a queue of such
  entries is listed without an exception.
\<close>

theorem unknown_status_rendered_as_unknown:
  assumes "dq_status item \<notin> {''queued'', ''downloading'', ''completed'', ''failed''}"
  shows "status_emoji (dq_status item) = QuestionMark
     \<and> snd (print_queue_item item) = None
     \<and> [Str ''   '', Glyph QuestionMark, Str '' Queue ID: '', IntPlain (dq_id item),
         Str '' | Status: '', Upper (dq_status item)] \<in> set (fst (print_queue_item item))
     \<and> snd (print_specific_item item) = None
     \<and> take 2 (hd (fst (print_specific_item item))) = [Str ''   '', Glyph QuestionMark]
     \<and> (status_emoji s = QuestionMark
          \<longleftrightarrow> s \<notin> {''queued'', ''downloading'', ''completed'', ''failed''})
     \<and> ((\<forall>x \<in> set queue.
            dq_status x \<notin> {''queued'', ''downloading'', ''completed'', ''failed''})
          \<longrightarrow> snd (print_queue queue) = None)"
proof (intro conjI impI)
  show "status_emoji (dq_status item) = QuestionMark"
    using assms by (simp add: status_emoji_def)
  show "snd (print_queue_item item) = None"
    using assms by (rule print_queue_item_unknown)
  show "[Str ''   '', Glyph QuestionMark, Str '' Queue ID: '', IntPlain (dq_id item),
         Str '' | Status: '', Upper (dq_status item)] \<in> set (fst (print_queue_item item))"
    using assms by (rule print_queue_item_unknown)
  show "snd (print_specific_item item) = None"
    by (simp add: print_specific_item_def pr_def)
  show "take 2 (hd (fst (print_specific_item item))) = [Str ''   '', Glyph QuestionMark]"
    using assms by (simp add: print_specific_item_def pr_def status_emoji_def)
  show "status_emoji s = QuestionMark
          \<longleftrightarrow> s \<notin> {''queued'', ''downloading'', ''completed'', ''failed''}"
    by (simp add: status_emoji_def)
  show "snd (print_queue queue) = None"
    if "\<forall>x \<in> set queue.
            dq_status x \<notin> {''queued'', ''downloading'', ''completed'', ''failed''}"
  proof -
    from that have "snd (pfor print_queue_item queue) = None"
      by (intro pfor_no_exception print_queue_item_unknown) blast
    then show ?thesis
      by (cases "pfor print_queue_item queue") (simp add: print_queue_def pr_def)
  qed
qed

theorem unknown_status_rendered_as_unknown_witness:
  "dq_status a_paused_entry \<notin> {''queued'', ''downloading'', ''completed'', ''failed''}
   \<and> status_emoji (dq_status a_paused_entry) = QuestionMark
   \<and> snd (print_queue_item a_paused_entry) = None
   \<and> snd (print_specific_item a_paused_entry) = None
   \<and> snd (print_queue [a_paused_entry, a_paused_entry]) = None"
proof -
  have h: "dq_status a_paused_entry \<notin> {''queued'', ''downloading'', ''completed'', ''failed''}"
    by (simp add: a_paused_entry_def)
  then have q: "\<forall>x \<in> set [a_paused_entry, a_paused_entry].
      dq_status x \<notin> {''queued'', ''downloading'', ''completed'', ''failed''}"
    by simp
  from unknown_status_rendered_as_unknown [OF h, of _ "[a_paused_entry, a_paused_entry]"] h q
  show ?thesis by blast
qed

subsection \<open>The connection at the end of a run\<close>

lemma keeps_open_bnd:
  assumes "keeps_open m" and "\<And>x. keeps_open (k x)"
  shows "keeps_open (bnd m k)"
  unfolding keeps_open_def
proof (intro allI impI)
  fix w :: world assume o: "conn w = Opened"
  obtain r w' where mw: "m w = (r, w')" by (cases "m w")
  from assms(1) o mw have o': "conn w' = Opened"
    unfolding keeps_open_def by (metis snd_conv)
  show "conn (snd (bnd m k w)) = Opened"
  proof (cases r)
    case (Inl e)
    with mw o' show ?thesis by (simp add: bnd_def)
  next
    case (Inr x)
    from assms(2) [of x] o' have "conn (snd (k x w')) = Opened"
      unfolding keeps_open_def by blast
    with Inr mw show ?thesis by (simp add: bnd_def)
  qed
qed

lemma keeps_open_print_out: "keeps_open (print_out p)"
  by (simp add: keeps_open_def print_out_def)

lemma keeps_open_cursor_execute: "keeps_open (cursor_execute q)"
  by (simp add: keeps_open_def cursor_execute_def)

lemma keeps_open_return: "keeps_open (\<lambda>w. (r, w))"
  by (simp add: keeps_open_def)

lemmas keeps_open_steps =
  keeps_open_bnd keeps_open_print_out keeps_open_cursor_execute keeps_open_return

lemma keeps_open_sections:
  "keeps_open section_manga" "keeps_open section_chapters" "keeps_open section_queue"
  "keeps_open section_statistics" "keeps_open (section_issues now_ms)"
  unfolding section_manga_def section_chapters_def section_queue_def section_statistics_def
    computeStatistics_def section_issues_def check_duplicates_def check_frozen_def
    check_zero_pages_def
  by (intro keeps_open_steps)+

lemma closes_on_return_bnd:
  assumes "keeps_open m" and "\<And>x. closes_on_return (k x)"
  shows "closes_on_return (bnd m k)"
  unfolding closes_on_return_def
proof (intro allI impI)
  fix w :: world assume o: "conn w = Opened"
  obtain r w' where mw: "m w = (r, w')" by (cases "m w")
  from assms(1) o mw have o': "conn w' = Opened"
    unfolding keeps_open_def by (metis snd_conv)
  show "conn (snd (bnd m k w))
      = (case fst (bnd m k w) of Inl e \<Rightarrow> Opened | Inr x \<Rightarrow> Closed)"
  proof (cases r)
    case (Inl e)
    with mw o' show ?thesis by (simp add: bnd_def)
  next
    case (Inr x)
    from assms(2) [of x] o'
    have "conn (snd (k x w')) = (case fst (k x w') of Inl e \<Rightarrow> Opened | Inr x \<Rightarrow> Closed)"
      unfolding closes_on_return_def by blast
    with Inr mw show ?thesis by (simp add: bnd_def)
  qed
qed

lemma closes_on_return_conn_close: "closes_on_return conn_close"
  by (simp add: closes_on_return_def conn_close_def)

lemma closes_on_return_if:
  "closes_on_return m \<Longrightarrow> closes_on_return n \<Longrightarrow> closes_on_return (if c then m else n)"
  by simp

text \<open>The body of \<open>inspect_database\<close> after \<open>connect_db\<close>.\<close>

lemma closes_on_return_report:
  "closes_on_return
     (bnd (print_out p) (\<lambda>_.
      bnd (cursor_execute q_tables) (\<lambda>tables.
      if tables = []
      then bnd (print_out p') (\<lambda>_. conn_close)
      else
        bnd (print_out (p'' tables)) (\<lambda>_.
        bnd section_manga (\<lambda>_.
        bnd section_chapters (\<lambda>_.
        bnd section_queue (\<lambda>_.
        bnd section_statistics (\<lambda>_.
        bnd (section_issues now_ms) (\<lambda>_.
        conn_close)))))))))"
  by (intro closes_on_return_bnd closes_on_return_if closes_on_return_conn_close
      keeps_open_steps keeps_open_sections)

lemma inspect_database_connected:
  assumes "db_exists w"
  shows "conn (snd (inspect_database now_ms w))
      = (case fst (inspect_database now_ms w) of Inl e \<Rightarrow> Opened | Inr x \<Rightarrow> Closed)"
proof -
  let ?body = "bnd (print_out (pr (banner [[Str ''OFFLINE STORAGE DATABASE INSPECTION'']] @ [[]]))) (\<lambda>_.
      bnd (cursor_execute q_tables) (\<lambda>tables.
      if tables = []
      then bnd (print_out (pr [[Glyph CrossMark, Str '' No offline storage tables found!'']]))
             (\<lambda>_. conn_close)
      else
        bnd (print_out (pr ([[Glyph Clipboard, Str '' Available tables:'']]
                            @ map (\<lambda>name. [Str ''   - '', Str name]) tables @ [[]]))) (\<lambda>_.
        bnd section_manga (\<lambda>_.
        bnd section_chapters (\<lambda>_.
        bnd section_queue (\<lambda>_.
        bnd section_statistics (\<lambda>_.
        bnd (section_issues now_ms) (\<lambda>_.
        conn_close))))))))"
  have run: "inspect_database now_ms w = ?body (w\<lparr>conn := Opened\<rparr>)"
    using assms by (simp add: inspect_database_def bnd_def connect_db_def)
  have "closes_on_return ?body" by (rule closes_on_return_report)
  then have "conn (snd (?body (w\<lparr>conn := Opened\<rparr>)))
      = (case fst (?body (w\<lparr>conn := Opened\<rparr>)) of Inl e \<Rightarrow> Opened | Inr x \<Rightarrow> Closed)"
    unfolding closes_on_return_def by simp
  then show ?thesis unfolding run .
qed

lemma inspect_database_no_file:
  assumes "\<not> db_exists w"
  shows "inspect_database now_ms w
      = (Inl (SystemExit 1),
         w\<lparr>stdout := stdout w @ [[Glyph CrossMark, Str '' Database not found at: '', DbPath]]\<rparr>)"
  using assms by (simp add: inspect_database_def bnd_def connect_db_def)

text \<open>
  C9. A run of the full report that returns, by the early return of line 53 or at the end,
  has closed the connection it opened. A run that an exception leaves after the
  connection was opened has not: the connection is still open. Without the catalog file
  the run exits with status 1 and no connection was ever opened.
\<close>

theorem connection_closed_on_return_only:
  "(db_exists w \<and> fst (inspect_database now_ms w) = Inr () \<longrightarrow>
      conn (snd (inspect_database now_ms w)) = Closed)
   \<and> (db_exists w \<and> fst (inspect_database now_ms w) = Inl e \<longrightarrow>
      conn (snd (inspect_database now_ms w)) = Opened)
   \<and> (\<not> db_exists w \<longrightarrow>
      fst (inspect_database now_ms w) = Inl (SystemExit 1)
      \<and> conn (snd (inspect_database now_ms w)) = conn w)
   \<and> (fst (inspect_database now_ms w) = Inr () \<longrightarrow> db_exists w)"
proof (intro conjI impI)
  show "conn (snd (inspect_database now_ms w)) = Closed"
    if "db_exists w \<and> fst (inspect_database now_ms w) = Inr ()"
    using that inspect_database_connected [of w now_ms] by simp
  show "conn (snd (inspect_database now_ms w)) = Opened"
    if "db_exists w \<and> fst (inspect_database now_ms w) = Inl e"
    using that inspect_database_connected [of w now_ms] by simp
  show "fst (inspect_database now_ms w) = Inl (SystemExit 1)" if "\<not> db_exists w"
    using that by (simp add: inspect_database_no_file)
  show "conn (snd (inspect_database now_ms w)) = conn w" if "\<not> db_exists w"
    using that by (simp add: inspect_database_no_file)
  show "db_exists w" if "fst (inspect_database now_ms w) = Inr ()"
    using that inspect_database_no_file [of w now_ms] by (cases "db_exists w") simp_all
qed

lemma q_tables_empty_store: "q_tables e empty_store = Inr [''download_queue'', ''offline_chapters'', ''offline_manga'']"
  by (simp add: q_tables_def sqlite_master_def empty_store_def like_prefix_def ascii_lower_def)

lemma q_tables_queue_only_store: "q_tables e queue_only_store = Inr [''download_queue'']"
  by (simp add: q_tables_def sqlite_master_def queue_only_store_def like_prefix_def
      ascii_lower_def)

lemma inspect_database_queue_only_store:
  "inspect_database now_ms (at_start queue_only_store table_scan)
     = (Inl (OperationalError ''no such table: offline_manga''),
        \<lparr>db_exists = True, db = queue_only_store, sqlite = table_scan, conn = Opened,
         stdout = banner [[Str ''OFFLINE STORAGE DATABASE INSPECTION'']] @ [[]]
           @ [[Glyph Clipboard, Str '' Available tables:''], [Str ''   - '', Str ''download_queue''], []]
           @ banner [[Str ''1. OFFLINE MANGA'']]\<rparr>)"
  by (simp add: inspect_database_def bnd_def connect_db_def at_start_def print_out_def pr_def
      cursor_execute_def q_tables_queue_only_store section_manga_def q_manga_list_def
      table_def sbind_def)
    (simp add: queue_only_store_def)

lemma empty_store_tables:
  "offline_manga empty_store = Some []" "offline_chapters empty_store = Some []"
  "download_queue empty_store = Some []"
  by (simp_all add: empty_store_def)

lemma inspect_database_empty_store:
  "fst (inspect_database now_ms (at_start empty_store table_scan)) = Inr ()"
  by (simp add: inspect_database_def bnd_def connect_db_def at_start_def print_out_def pr_def
      cursor_execute_def q_tables_empty_store section_manga_def section_chapters_def
      section_queue_def section_statistics_def computeStatistics_def section_issues_def
      check_duplicates_def check_frozen_def check_zero_pages_def conn_close_def
      q_manga_list_def q_chapters_list_def q_queue_def q_count_manga_def q_count_chapters_def
      q_count_status_def q_total_size_def q_duplicate_queue_def q_frozen_def q_zero_pages_def
      table_def sbind_def empty_store_tables table_scan_def manga_list_def chapters_list_def
      chapters_joined_def listQueueEntries_def order_by_def sql_sum_def duplicate_queue_def
      duplicate_rows_def frozen_rows_def zero_rows_def
      frozen_def zero_pages_def print_manga_list_def print_chapters_list_def print_queue_def
      print_statistics_def print_duplicate_queue_def print_frozen_def print_zero_pages_def
      count_status_def)

theorem connection_closed_on_return_only_witness:
  "db_exists (at_start empty_store table_scan)
   \<and> fst (inspect_database 0 (at_start empty_store table_scan)) = Inr ()
   \<and> conn (snd (inspect_database 0 (at_start empty_store table_scan))) = Closed
   \<and> db_exists (at_start queue_only_store table_scan)
   \<and> (\<exists>e. fst (inspect_database 0 (at_start queue_only_store table_scan)) = Inl e)
   \<and> conn (snd (inspect_database 0 (at_start queue_only_store table_scan))) = Opened
   \<and> \<not> db_exists ((at_start empty_store table_scan)\<lparr>db_exists := False\<rparr>)
   \<and> fst (inspect_database 0 ((at_start empty_store table_scan)\<lparr>db_exists := False\<rparr>))
       = Inl (SystemExit 1)
   \<and> conn (snd (inspect_database 0 ((at_start empty_store table_scan)\<lparr>db_exists := False\<rparr>)))
       = NotOpened"
proof -
  have a: "db_exists (at_start empty_store table_scan)"
    and b: "db_exists (at_start queue_only_store table_scan)"
    and c: "\<not> db_exists ((at_start empty_store table_scan)\<lparr>db_exists := False\<rparr>)"
    and d: "conn ((at_start empty_store table_scan)\<lparr>db_exists := False\<rparr>) = NotOpened"
    by (simp_all add: at_start_def)
  have r: "fst (inspect_database 0 (at_start empty_store table_scan)) = Inr ()"
    by (simp add: inspect_database_empty_store)
  have x: "fst (inspect_database 0 (at_start queue_only_store table_scan))
      = Inl (OperationalError ''no such table: offline_manga'')"
    by (simp add: inspect_database_queue_only_store)
  from connection_closed_on_return_only [of "at_start empty_store table_scan" 0] a r
  have 1: "conn (snd (inspect_database 0 (at_start empty_store table_scan))) = Closed"
    by blast
  from connection_closed_on_return_only
    [of "at_start queue_only_store table_scan" 0 "OperationalError ''no such table: offline_manga''"]
    b x
  have 2: "conn (snd (inspect_database 0 (at_start queue_only_store table_scan))) = Opened"
    by blast
  from connection_closed_on_return_only
    [of "(at_start empty_store table_scan)\<lparr>db_exists := False\<rparr>" 0] c d
  have 3: "fst (inspect_database 0 ((at_start empty_store table_scan)\<lparr>db_exists := False\<rparr>))
       = Inl (SystemExit 1)
    \<and> conn (snd (inspect_database 0 ((at_start empty_store table_scan)\<lparr>db_exists := False\<rparr>)))
       = NotOpened"
    by simp
  from a b c r x 1 2 3 show ?thesis by simp
qed

text \<open>
  A catalog in which the queue table exists and the other two do not: the schema check
  finds a table, the first listing fails, and the run ends with the connection open.
\<close>

theorem missing_table_leaves_connection_open:
  "conn (at_start queue_only_store table_scan) = NotOpened
   \<and> fst (inspect_database 0 (at_start queue_only_store table_scan))
       = Inl (OperationalError ''no such table: offline_manga'')
   \<and> conn (snd (inspect_database 0 (at_start queue_only_store table_scan))) = Opened"
  by (simp add: inspect_database_queue_only_store) (simp add: at_start_def)

subsection \<open>The minutes a download has been stuck\<close>

lemma to_double_61: "to_double 61 = 61"
  by code_simp

text \<open>
  C10. A download started at millisecond 1000, looked at at millisecond 3691000: 61.5
  minutes have passed, the query returns the integer 61, and the report prints 61.0.
\<close>

theorem elapsed_minutes_truncated:
  "q_frozen 3691000 table_scan (a_store\<lparr>download_queue := Some [a_download]\<rparr>)
     = Inr [frozen_of 3691000 a_download 1000]
   \<and> minutes_elapsed (frozen_of 3691000 a_download 1000) = SqlInteger 61
   \<and> fst (print_frozen_item (frozen_of 3691000 a_download 1000)) ! 1
       = [Str ''        Stuck for: '', Fixed1 61, Str '' minutes'']
   \<and> ((3691000 - 1000) / 60000 :: rat) = 123 / 2"
proof -
  have s: "since_started 3691000 1000 = SqlInteger 3690000"
    by (simp add: since_started_def strftime_s_def sql_mul_def sql_sub_def int64_def)
  have m: "elapsed_minutes 3691000 1000 = SqlInteger 61"
    by (simp add: elapsed_minutes_def s sql_div_def)
  have f: "is_frozen 3691000 a_download"
    by (simp add: is_frozen_def a_download_def s sql_gt_def)
  have q: "q_frozen 3691000 table_scan (a_store\<lparr>download_queue := Some [a_download]\<rparr>)
     = Inr [frozen_of 3691000 a_download 1000]"
    using f by (simp add: q_frozen_def table_def sbind_def frozen_def frozen_rows_def table_scan_def)
      (simp add: a_download_def)
  have p: "fst (print_frozen_item (frozen_of 3691000 a_download 1000)) ! 1
       = [Str ''        Stuck for: '', Fixed1 61, Str '' minutes'']"
    by (simp add: print_frozen_item_def pr_def frozen_of_def m as_double_def to_double_61)
  from q m p show ?thesis by (simp add: frozen_of_def)
qed

end
